theory Spec2Isabelle
  imports Main
begin

section \<open>Python values and errors\<close>

text \<open>
  The exceptions that the modelled code can raise. \<open>DoesNotExist\<close> and
  \<open>MultipleObjectsReturned\<close> are what a queryset's \<open>get\<close> raises,
  \<open>IndexError\<close> is what \<open>str.format\<close> raises for a positional field without an
  argument, \<open>KeyError\<close> is a missing dictionary key. \<open>DocdataCreateError v\<close> is the
  gateway's creation error with its \<open>value\<close> attribute; \<open>PaymentError v e\<close> is Oscar's
  payment error built as \<open>PaymentError(v, e)\<close>, that is with the argument tuple \<open>(v, e)\<close>.
  \<open>OtherError\<close> stands for any other exception of the underlying interface.
\<close>

datatype py_error =
    DoesNotExist
  | MultipleObjectsReturned
  | IndexError
  | KeyError string
  | DocdataCreateError string
  | PaymentError string py_error
  | OtherError string

text \<open>Python truthiness of a string: only the empty string is false.\<close>

definition truthy :: "string \<Rightarrow> bool" where
  "truthy s = (s \<noteq> [])"

text \<open>\<open>d.get(k, default)\<close> on a dictionary.\<close>

definition dict_get :: "('k \<rightharpoonup> 'v) \<Rightarrow> 'k \<Rightarrow> 'v \<Rightarrow> 'v" where
  "dict_get d k dflt = (case d k of None \<Rightarrow> dflt | Some v \<Rightarrow> v)"

text \<open>
  \<open>template.format(*args)\<close> for a template with literal text and explicitly numbered
  positional fields \<open>{n}\<close>: a field whose index is not below the number of arguments
  raises \<open>IndexError\<close>.
\<close>

datatype fmt_piece = Lit string | Field nat

fun py_format :: "fmt_piece list \<Rightarrow> string list \<Rightarrow> py_error + string" where
  "py_format [] args = Inr []"
| "py_format (Lit t # ps) args =
     (case py_format ps args of Inl e \<Rightarrow> Inl e | Inr r \<Rightarrow> Inr (t @ r))"
| "py_format (Field n # ps) args =
     (if n < length args
      then (case py_format ps args of Inl e \<Rightarrow> Inl e | Inr r \<Rightarrow> Inr (args ! n @ r))
      else Inl IndexError)"

text \<open>
  \<open>queryset.get(...)\<close>: the single row that satisfies the lookup, \<open>DoesNotExist\<close> when
  there is none, \<open>MultipleObjectsReturned\<close> when there are several.
\<close>

definition objects_get :: "('a \<Rightarrow> bool) \<Rightarrow> 'a list \<Rightarrow> py_error + 'a" where
  "objects_get p rows =
     (case filter p rows of
        [] \<Rightarrow> Inl DoesNotExist
      | [r] \<Rightarrow> Inr r
      | _ # _ # _ \<Rightarrow> Inl MultipleObjectsReturned)"

section \<open>Settings\<close>

text \<open>
  The module \<open>appsettings\<close> is not part of the sources at hand; the four settings
  that the code reads are taken as parameters.
\<close>

record appsettings =
  DOCDATA_PROFILE :: string
  DOCDATA_ORDER_STATUS_MAPPING :: "string \<rightharpoonup> string"
  OSCAR_ORDER_STATUS_CASCADE :: "string \<rightharpoonup> string"
  DOCDATA_MERCHANT_NAME :: string

section \<open>Stored data\<close>

text \<open>
  A row of \<open>oscar_docdata.docdataorder\<close>, with the columns of the frozen model of
  migration 0004. Decimal columns (two decimal places) are counted in hundredths,
  timestamps are numbers. The columns \<open>id\<close>, \<open>status\<close> and \<open>language\<close> carry the
  prefix \<open>docdata_\<close>.
\<close>

record docdataorder =
  docdata_id :: nat
  country :: "string option"
  created :: nat
  currency :: string
  docdata_language :: string
  merchant_name :: string
  merchant_order_id :: string
  order_key :: string
  docdata_status :: string
  total_acquirer_approved :: int
  total_acquirer_pending :: int
  total_captured :: int
  total_charged_back :: int
  total_gross_amount :: int
  total_refunded :: int
  total_registered :: int
  total_shopper_pending :: int
  updated :: nat

text \<open>
  An Oscar order (\<open>pk\<close>, \<open>number\<close>, \<open>status\<close>), an order line of it, and a row
  of Oscar's \<open>SourceType\<close>.
\<close>

record order =
  pk :: nat
  number :: string
  status :: string

record line =
  line_pk :: nat
  line_order :: nat
  line_status :: string

record source_type =
  st_pk :: nat
  st_name :: string
  st_code :: string

text \<open>
  What the outside can observe of a run, in the order in which it happens: the bulk
  update of the lines of an order, the saving of an order, a log entry, and the
  order-status-changed notification with its three arguments.
\<close>

datatype event =
    LinesUpdated nat string
  | OrderSaved order
  | LogInfo string
  | StatusChangedSignal docdataorder string string

text \<open>
  The state: the module globals \<open>Order\<close> and \<open>SourceType\<close> (resolved or not), the
  tables, and the events so far.
\<close>

record state =
  models_loaded :: bool
  orders :: "order list"
  lines :: "line list"
  docdata_orders :: "docdataorder list"
  source_types :: "source_type list"
  trace :: "event list"

section \<open>The facade: \<open>order_status_changed\<close>\<close>

definition lazy_get_models :: "state \<Rightarrow> state" where
  "lazy_get_models s = (if \<not> models_loaded s then s\<lparr>models_loaded := True\<rparr> else s)"

text \<open>\<open>order.lines.all().update(status=cascade)\<close>: one bulk write on the lines of the order.\<close>

definition lines_all_update :: "order \<Rightarrow> string \<Rightarrow> state \<Rightarrow> state" where
  "lines_all_update ord cascade s =
     s\<lparr>lines := map (\<lambda>l. if line_order l = pk ord then l\<lparr>line_status := cascade\<rparr> else l) (lines s),
       trace := trace s @ [LinesUpdated (pk ord) cascade]\<rparr>"

text \<open>\<open>order.save()\<close>: the row with the primary key of the object is overwritten by it.\<close>

definition order_save :: "order \<Rightarrow> state \<Rightarrow> state" where
  "order_save ord s =
     s\<lparr>orders := map (\<lambda>r. if pk r = pk ord then ord else r) (orders s),
       trace := trace s @ [OrderSaved ord]\<rparr>"

definition logging_info :: "string \<Rightarrow> state \<Rightarrow> state" where
  "logging_info msg s = s\<lparr>trace := trace s @ [LogInfo msg]\<rparr>"

text \<open>
  Modelled from the spec: \<open>Interface.order_status_changed\<close>, the method of the base
  class in \<open>oscar_docdata.interface\<close>, is missing from the sources. The specification
  says that it emits the order-status-changed domain notification carrying the order
  aggregate, the previous status and the new status.
\<close>

definition Interface_order_status_changed ::
  "docdataorder \<Rightarrow> string \<Rightarrow> string \<Rightarrow> state \<Rightarrow> (py_error + unit) \<times> state" where
  "Interface_order_status_changed docdataorder old_status new_status s =
     (Inr (), s\<lparr>trace := trace s @ [StatusChangedSignal docdataorder old_status new_status]\<rparr>)"

text \<open>The template of the log message of line 117, with its fields \<open>{0}\<close> and \<open>{1}\<close>.\<close>

definition skip_template :: "fmt_piece list" where
  "skip_template =
     [Lit ''Order '', Field 0, Lit '' status is already '', Field 1, Lit '', skipping signal.'']"

definition project_status_of :: "appsettings \<Rightarrow> string \<Rightarrow> string" where
  "project_status_of cfg new_status =
     dict_get (DOCDATA_ORDER_STATUS_MAPPING cfg) new_status new_status"

text \<open>
  \<open>Facade.order_status_changed\<close>. The result is the outcome (an exception or a normal
  return) together with the state at that moment.
\<close>

definition order_status_changed ::
  "appsettings \<Rightarrow> docdataorder \<Rightarrow> string \<Rightarrow> string \<Rightarrow> state \<Rightarrow> (py_error + unit) \<times> state" where
  "order_status_changed cfg docdataorder old_status new_status s0 =
     (let s = lazy_get_models s0;
          project_status = project_status_of cfg new_status;
          cascade = OSCAR_ORDER_STATUS_CASCADE cfg project_status
      in case objects_get (\<lambda>r. number r = merchant_order_id docdataorder) (orders s) of
           Inl e \<Rightarrow> (Inl e, s)
         | Inr ord \<Rightarrow>
             if status ord = project_status then
               (case py_format skip_template [number ord] of
                  Inl e \<Rightarrow> (Inl e, s)
                | Inr msg \<Rightarrow> (Inr (), logging_info msg s))
             else
               (let ord' = ord\<lparr>status := project_status\<rparr>;
                    s1 = (case cascade of
                            None \<Rightarrow> s
                          | Some c \<Rightarrow> if truthy c then lines_all_update ord' c s else s);
                    s2 = order_save ord' s1
                in Interface_order_status_changed docdataorder old_status new_status s2))"

section \<open>The facade: \<open>create_payment\<close>\<close>

text \<open>
  \<open>Interface.create_payment\<close>, the method of the base class, is missing from the
  sources: it is the parameter \<open>Interface_create_payment\<close>, which may change the state
  and either raises or returns the order key. \<open>profile\<close> is \<open>None\<close> or a string, and
  \<open>not profile\<close> holds for \<open>None\<close> and for the empty string.
\<close>

definition profile_or_default :: "appsettings \<Rightarrow> string option \<Rightarrow> string" where
  "profile_or_default cfg profile =
     (case profile of
        None \<Rightarrow> DOCDATA_PROFILE cfg
      | Some p \<Rightarrow> if \<not> truthy p then DOCDATA_PROFILE cfg else p)"

definition create_payment ::
  "appsettings \<Rightarrow>
   (string \<Rightarrow> 'total \<Rightarrow> 'user \<Rightarrow> string option \<Rightarrow> string option \<Rightarrow> string \<Rightarrow> 'kw \<Rightarrow> state
      \<Rightarrow> (py_error + string) \<times> state) \<Rightarrow>
   string \<Rightarrow> 'total \<Rightarrow> 'user \<Rightarrow> string option \<Rightarrow> string option \<Rightarrow> string option \<Rightarrow> 'kw \<Rightarrow> state
      \<Rightarrow> (py_error + string) \<times> state" where
  "create_payment cfg Interface_create_payment order_number total_price usr lang description profile kwargs s =
     (let profile' = profile_or_default cfg profile
      in case Interface_create_payment order_number total_price usr lang description profile' kwargs s of
           (Inl (DocdataCreateError v), s') \<Rightarrow> (Inl (PaymentError v (DocdataCreateError v)), s')
         | (Inl e, s') \<Rightarrow> (Inl e, s')
         | (Inr key, s') \<Rightarrow> (Inr key, s'))"

text \<open>Whether an exception is, or carries among its arguments, the gateway's creation error.\<close>

fun carries_gateway_error :: "py_error \<Rightarrow> bool" where
  "carries_gateway_error (DocdataCreateError v) = True"
| "carries_gateway_error (PaymentError v e) = carries_gateway_error e"
| "carries_gateway_error _ = False"

section \<open>The facade: \<open>get_create_payment_args\<close>\<close>

text \<open>
  The user, the price and the billing address as far as the method reads them, and the
  value objects of \<open>oscar_docdata.gateway\<close> as the records of their constructor
  arguments.
\<close>

record user =
  user_id :: nat
  first_name :: string
  last_name :: string
  email :: string

record price =
  incl_tax :: int
  price_currency :: string

record billingaddress =
  ba_first_name :: string
  ba_last_name :: string
  line1 :: string
  postcode :: string
  city :: string
  state_field :: string
  country_id :: string









section \<open>The facade: \<open>get_source_type\<close>\<close>

text \<open>
  \<open>SourceType.objects.get_or_create(code=c, defaults={'name': n})\<close>: the row found by
  \<open>get(code=c)\<close>, and when there is none a new row with the next primary key, made of
  the lookup and the defaults. The second component of the result says whether a row
  was created.
\<close>

definition next_pk :: "source_type list \<Rightarrow> nat" where
  "next_pk rows = Suc (fold max (map st_pk rows) 0)"

definition get_or_create ::
  "string \<Rightarrow> string \<Rightarrow> state \<Rightarrow> (py_error + source_type \<times> bool) \<times> state" where
  "get_or_create c n s =
     (case objects_get (\<lambda>r. st_code r = c) (source_types s) of
        Inr r \<Rightarrow> (Inr (r, False), s)
      | Inl DoesNotExist \<Rightarrow>
          (let r = \<lparr>st_pk = next_pk (source_types s), st_name = n, st_code = c\<rparr>
           in (Inr (r, True), s\<lparr>source_types := source_types s @ [r]\<rparr>))
      | Inl e \<Rightarrow> (Inl e, s))"

definition get_source_type :: "state \<Rightarrow> (py_error + source_type) \<times> state" where
  "get_source_type s0 =
     (let s = lazy_get_models s0
      in case get_or_create ''docdata'' ''Docdata Payments'' s of
           (Inl e, s') \<Rightarrow> (Inl e, s')
         | (Inr (source_type, _), s') \<Rightarrow> (Inr source_type, s'))"

section \<open>Migration 0004: fill the merchant name\<close>

text \<open>
  The migration works on the table \<open>oscar_docdata.docdataorder\<close> alone:
  \<open>filter(merchant_name='').update(merchant_name=...)\<close> is one bulk write, which
  sets the named column of the selected rows and nothing else.
\<close>

definition forwards :: "appsettings \<Rightarrow> docdataorder list \<Rightarrow> docdataorder list" where
  "forwards cfg rows =
     map (\<lambda>r. if merchant_name r = []
               then r\<lparr>merchant_name := DOCDATA_MERCHANT_NAME cfg\<rparr> else r) rows"

definition backwards :: "docdataorder list \<Rightarrow> docdataorder list" where
  "backwards rows = rows"

section \<open>Example data\<close>

text \<open>
  A configuration, an order of the gateway and a store with two orders of one line
  each, on which the theorems below are instantiated. The cascade table has a
  non-empty entry for \<open>Cancelled\<close>, an empty one for \<open>Paid\<close> and none for any other
  status.
\<close>

definition ex_cfg :: appsettings where
  "ex_cfg =
     \<lparr>DOCDATA_PROFILE = ''standard'',
      DOCDATA_ORDER_STATUS_MAPPING = [''paid'' \<mapsto> ''Paid'', ''cancelled'' \<mapsto> ''Cancelled''],
      OSCAR_ORDER_STATUS_CASCADE = [''Cancelled'' \<mapsto> ''Cancelled'', ''Paid'' \<mapsto> []],
      DOCDATA_MERCHANT_NAME = ''shop''\<rparr>"

definition ex_docdataorder :: docdataorder where
  "ex_docdataorder =
     \<lparr>docdata_id = 1, country = Some ''NL'', created = 10, currency = ''EUR'',
      docdata_language = ''en'', merchant_name = ''shop'', merchant_order_id = ''1001'',
      order_key = ''K1'', docdata_status = ''new'',
      total_acquirer_approved = 0, total_acquirer_pending = 0, total_captured = 0,
      total_charged_back = 0, total_gross_amount = 10000, total_refunded = 0,
      total_registered = 10000, total_shopper_pending = 0, updated = 10\<rparr>"

definition ex_order :: order where
  "ex_order = \<lparr>pk = 1, number = ''1001'', status = ''Pending''\<rparr>"

definition ex_state :: state where
  "ex_state =
     \<lparr>models_loaded = False,
      orders = [ex_order, \<lparr>pk = 2, number = ''1002'', status = ''Pending''\<rparr>],
      lines = [\<lparr>line_pk = 1, line_order = 1, line_status = ''Open''\<rparr>,
               \<lparr>line_pk = 2, line_order = 2, line_status = ''Open''\<rparr>],
      docdata_orders = [ex_docdataorder],
      source_types = [],
      trace = []\<rparr>"

text \<open>The same store after the order 1001 has reached the status \<open>Paid\<close>.\<close>

definition ex_paid_state :: state where
  "ex_paid_state =
     ex_state\<lparr>orders := [\<lparr>pk = 1, number = ''1001'', status = ''Paid''\<rparr>,
                          \<lparr>pk = 2, number = ''1002'', status = ''Pending''\<rparr>]\<rparr>"

text \<open>
  Two stand-ins for the base class's \<open>create_payment\<close>: a gateway that rejects the
  session with a creation error, and one that returns an order key.
\<close>

definition ex_rejecting_interface ::
  "string \<Rightarrow> price \<Rightarrow> user \<Rightarrow> string option \<Rightarrow> string option \<Rightarrow> string \<Rightarrow>
   (string \<rightharpoonup> billingaddress) \<Rightarrow> state \<Rightarrow> (py_error + string) \<times> state" where
  "ex_rejecting_interface order_number total_price usr lang description profile kwargs s =
     (Inl (DocdataCreateError ''REQUEST_DATA_INCORRECT''), s)"

definition ex_accepting_interface ::
  "string \<Rightarrow> price \<Rightarrow> user \<Rightarrow> string option \<Rightarrow> string option \<Rightarrow> string \<Rightarrow>
   (string \<rightharpoonup> billingaddress) \<Rightarrow> state \<Rightarrow> (py_error + string) \<times> state" where
  "ex_accepting_interface order_number total_price usr lang description profile kwargs s =
     (Inr (''KEY-'' @ order_number), s)"

definition ex_user :: user where
  "ex_user = \<lparr>user_id = 7, first_name = ''Ada'', last_name = ''Lovelace'', email = ''ada@example.org''\<rparr>"

definition ex_price :: price where
  "ex_price = \<lparr>incl_tax = 10000, price_currency = ''EUR''\<rparr>"

text \<open>A billing address whose first line has 40 characters.\<close>

definition ex_billingaddress :: billingaddress where
  "ex_billingaddress =
     \<lparr>ba_first_name = [], ba_last_name = ''Byron'',
      line1 = ''0123456789abcdefghijklmnopqrstuvwxyzABCD'',
      postcode = ''1234AB'', city = ''Amsterdam'', state_field = [], country_id = ''NL''\<rparr>"

definition ex_source_type :: source_type where
  "ex_source_type = \<lparr>st_pk = 3, st_name = ''Docdata'', st_code = ''docdata''\<rparr>"

definition ex_rows :: "docdataorder list" where
  "ex_rows = [ex_docdataorder\<lparr>merchant_name := []\<rparr>, ex_docdataorder\<lparr>merchant_name := ''other''\<rparr>]"

definition ex_kwargs :: "string \<rightharpoonup> billingaddress" where
  "ex_kwargs = [''billingaddress'' \<mapsto> ex_billingaddress]"

section \<open>Basic facts\<close>



lemma lazy_get_models_fields [simp]:
  "orders (lazy_get_models s) = orders s"
  "lines (lazy_get_models s) = lines s"
  "docdata_orders (lazy_get_models s) = docdata_orders s"
  "source_types (lazy_get_models s) = source_types s"
  "trace (lazy_get_models s) = trace s"
  "models_loaded (lazy_get_models s) = True"
  by (simp_all add: lazy_get_models_def)

text \<open>The three ways through \<open>order_status_changed\<close>: no order, a duplicate, a transition.\<close>

lemma osc_not_found:
  assumes "filter (\<lambda>r. number r = merchant_order_id d) (orders s) = []"
  shows "order_status_changed cfg d old_status new_status s = (Inl DoesNotExist, lazy_get_models s)"
  using assms by (simp add: order_status_changed_def objects_get_def Let_def)


lemma osc_applied:
  assumes "objects_get (\<lambda>r. number r = merchant_order_id d) (orders s) = Inr ord"
    and "status ord \<noteq> project_status_of cfg new_status"
  shows "fst (order_status_changed cfg d old_status new_status s) = Inr ()"
    and "orders (snd (order_status_changed cfg d old_status new_status s))
           = map (\<lambda>r. if pk r = pk ord then ord\<lparr>status := project_status_of cfg new_status\<rparr> else r)
               (orders s)"
    and "lines (snd (order_status_changed cfg d old_status new_status s))
           = (case OSCAR_ORDER_STATUS_CASCADE cfg (project_status_of cfg new_status) of
                None \<Rightarrow> lines s
              | Some c \<Rightarrow>
                  if c = [] then lines s
                  else map (\<lambda>l. if line_order l = pk ord then l\<lparr>line_status := c\<rparr> else l) (lines s))"
    and "trace (snd (order_status_changed cfg d old_status new_status s))
           = trace s
             @ (case OSCAR_ORDER_STATUS_CASCADE cfg (project_status_of cfg new_status) of
                  None \<Rightarrow> []
                | Some c \<Rightarrow> if c = [] then [] else [LinesUpdated (pk ord) c])
             @ [OrderSaved (ord\<lparr>status := project_status_of cfg new_status\<rparr>),
                StatusChangedSignal d old_status new_status]"
    and "docdata_orders (snd (order_status_changed cfg d old_status new_status s)) = docdata_orders s"
    and "source_types (snd (order_status_changed cfg d old_status new_status s)) = source_types s"
  using assms
  by (simp_all add: order_status_changed_def Let_def order_save_def lines_all_update_def
      Interface_order_status_changed_def truthy_def split: option.splits)

lemma ex_found:
  "objects_get (\<lambda>r. number r = merchant_order_id ex_docdataorder) (orders ex_state) = Inr ex_order"
  by (simp add: objects_get_def ex_state_def ex_docdataorder_def ex_order_def)

lemma ex_statuses:
  "project_status_of ex_cfg ''paid'' = ''Paid''"
  "project_status_of ex_cfg ''cancelled'' = ''Cancelled''"
  "project_status_of ex_cfg ''refunded'' = ''refunded''"
  by (simp_all add: project_status_of_def dict_get_def ex_cfg_def)

lemma ex_cascade:
  "OSCAR_ORDER_STATUS_CASCADE ex_cfg ''Cancelled'' = Some ''Cancelled''"
  "OSCAR_ORDER_STATUS_CASCADE ex_cfg ''Paid'' = Some []"
  "OSCAR_ORDER_STATUS_CASCADE ex_cfg ''refunded'' = None"
  by (simp_all add: ex_cfg_def)

section \<open>Status mapping\<close>


section \<open>Duplicate notifications\<close>

text \<open>
  C1. A notification whose mapped status is the status that the order already has: the
  run stops in the formatting of the log message, which names the fields \<open>{0}\<close> and
  \<open>{1}\<close> and is given one argument. On the store \<open>ex_paid_state\<close> the notification
  \<open>paid\<close> for order 1001 ends with \<open>IndexError\<close>; the tables and the events are as
  before, so no log entry and no notification have been emitted.
\<close>

theorem duplicate_notification_raises_IndexError:
  "order_status_changed ex_cfg ex_docdataorder ''new'' ''paid'' ex_paid_state
     = (Inl IndexError, ex_paid_state\<lparr>models_loaded := True\<rparr>)"
  by (simp add: order_status_changed_def Let_def objects_get_def ex_paid_state_def ex_state_def
      ex_docdataorder_def ex_statuses skip_template_def lazy_get_models_def)

section \<open>Cascade to the lines\<close>

text \<open>
  C3, as the code has it. For every transition applied by \<open>order_status_changed\<close> (the
  order is found and its status differs from the project status): if the cascade table
  maps the project status to a non-empty line status, then afterwards the lines are
  those of before with the status of every line of that order set to the cascade
  status; if the table has no entry for the project status, or an empty one, the lines
  are unchanged.
\<close>

theorem cascade_forces_line_status:
  assumes "objects_get (\<lambda>r. number r = merchant_order_id d) (orders s) = Inr ord"
    and "status ord \<noteq> project_status_of cfg new_status"
  shows "(\<forall>c. OSCAR_ORDER_STATUS_CASCADE cfg (project_status_of cfg new_status) = Some c \<and> c \<noteq> [] \<longrightarrow>
            lines (snd (order_status_changed cfg d old_status new_status s))
              = map (\<lambda>l. if line_order l = pk ord then l\<lparr>line_status := c\<rparr> else l) (lines s)
            \<and> (\<forall>l \<in> set (lines (snd (order_status_changed cfg d old_status new_status s))).
                 line_order l = pk ord \<longrightarrow> line_status l = c))
       \<and> (OSCAR_ORDER_STATUS_CASCADE cfg (project_status_of cfg new_status) = None \<or>
          OSCAR_ORDER_STATUS_CASCADE cfg (project_status_of cfg new_status) = Some [] \<longrightarrow>
            lines (snd (order_status_changed cfg d old_status new_status s)) = lines s)"
  using osc_applied(3)[OF assms] by auto

theorem cascade_forces_line_status_witness:
  "lines (snd (order_status_changed ex_cfg ex_docdataorder ''new'' ''cancelled'' ex_state))
     = [\<lparr>line_pk = 1, line_order = 1, line_status = ''Cancelled''\<rparr>,
        \<lparr>line_pk = 2, line_order = 2, line_status = ''Open''\<rparr>]
   \<and> lines (snd (order_status_changed ex_cfg ex_docdataorder ''new'' ''refunded'' ex_state))
     = lines ex_state"
proof -
  have a: "status ex_order \<noteq> project_status_of ex_cfg ''cancelled''"
    and b: "status ex_order \<noteq> project_status_of ex_cfg ''refunded''"
    by (simp_all add: ex_statuses ex_order_def)
  have c: "OSCAR_ORDER_STATUS_CASCADE ex_cfg (project_status_of ex_cfg ''cancelled'') = Some ''Cancelled''"
    and n: "OSCAR_ORDER_STATUS_CASCADE ex_cfg (project_status_of ex_cfg ''refunded'') = None"
    by (simp_all add: ex_statuses ex_cascade)
  from cascade_forces_line_status[OF ex_found a, of "''new''"] c
  have "lines (snd (order_status_changed ex_cfg ex_docdataorder ''new'' ''cancelled'' ex_state))
     = map (\<lambda>l. if line_order l = pk ex_order then l\<lparr>line_status := ''Cancelled''\<rparr> else l)
         (lines ex_state)"
    by simp
  moreover from cascade_forces_line_status[OF ex_found b, of "''new''"] n
  have "lines (snd (order_status_changed ex_cfg ex_docdataorder ''new'' ''refunded'' ex_state))
     = lines ex_state"
    by simp
  ultimately show ?thesis by (simp add: ex_state_def ex_order_def)
qed

text \<open>
  The claim as it is written fails where the cascade table maps the project status to
  the empty line status: the transition of order 1001 to \<open>Paid\<close> succeeds, the table
  has the empty string as its entry for \<open>Paid\<close>, and the line of that order keeps the
  status \<open>Open\<close>.
\<close>

theorem empty_cascade_leaves_lines_counterexample:
  "OSCAR_ORDER_STATUS_CASCADE ex_cfg (project_status_of ex_cfg ''paid'') = Some []
   \<and> fst (order_status_changed ex_cfg ex_docdataorder ''new'' ''paid'' ex_state) = Inr ()
   \<and> lines (snd (order_status_changed ex_cfg ex_docdataorder ''new'' ''paid'' ex_state))
       = [\<lparr>line_pk = 1, line_order = 1, line_status = ''Open''\<rparr>,
          \<lparr>line_pk = 2, line_order = 2, line_status = ''Open''\<rparr>]"
  by (simp add: order_status_changed_def Let_def objects_get_def ex_state_def ex_docdataorder_def
      ex_order_def ex_statuses ex_cascade truthy_def order_save_def Interface_order_status_changed_def
      lazy_get_models_def)

section \<open>Order of the effects of a transition\<close>



section \<open>Statuses outside the enumeration\<close>





section \<open>Unknown orders\<close>

text \<open>
  C6. When no order has the number of the notification, \<open>order_status_changed\<close> ends
  with the lookup error \<open>DoesNotExist\<close>, and the orders, the lines, the rows of the
  gateway's orders with their totals, the source types and the events are what they
  were: nothing is created or changed.
\<close>

theorem unknown_order_not_found:
  assumes "\<forall>r \<in> set (orders s). number r \<noteq> merchant_order_id d"
  shows "fst (order_status_changed cfg d old_status new_status s) = Inl DoesNotExist
       \<and> orders (snd (order_status_changed cfg d old_status new_status s)) = orders s
       \<and> lines (snd (order_status_changed cfg d old_status new_status s)) = lines s
       \<and> docdata_orders (snd (order_status_changed cfg d old_status new_status s)) = docdata_orders s
       \<and> source_types (snd (order_status_changed cfg d old_status new_status s)) = source_types s
       \<and> trace (snd (order_status_changed cfg d old_status new_status s)) = trace s"
proof -
  from assms have "filter (\<lambda>r. number r = merchant_order_id d) (orders s) = []"
    by (simp add: filter_empty_conv)
  from osc_not_found[OF this] show ?thesis by simp
qed

theorem unknown_order_not_found_witness:
  "fst (order_status_changed ex_cfg (ex_docdataorder\<lparr>merchant_order_id := ''999''\<rparr>) ''new'' ''paid'' ex_state)
       = Inl DoesNotExist
   \<and> orders (snd (order_status_changed ex_cfg (ex_docdataorder\<lparr>merchant_order_id := ''999''\<rparr>) ''new'' ''paid'' ex_state))
       = orders ex_state
   \<and> trace (snd (order_status_changed ex_cfg (ex_docdataorder\<lparr>merchant_order_id := ''999''\<rparr>) ''new'' ''paid'' ex_state))
       = []"
proof -
  have h: "\<forall>r \<in> set (orders ex_state). number r \<noteq> merchant_order_id (ex_docdataorder\<lparr>merchant_order_id := ''999''\<rparr>)"
    by (simp add: ex_state_def ex_order_def)
  from unknown_order_not_found[OF h, of ex_cfg "''new''" "''paid''"]
  show ?thesis by (simp add: ex_state_def)
qed

section \<open>Starting a payment\<close>

text \<open>
  C7, as the code has it. Where the base class's \<open>create_payment\<close>, called with the
  profile or the default profile, raises the creation error with value \<open>v\<close>,
  \<open>create_payment\<close> raises \<open>PaymentError(v, e)\<close>: a payment error whose arguments are the
  value and the creation error \<open>e\<close> itself. Where the base class returns an order key,
  \<open>create_payment\<close> returns that key. The state is the one the base class left.
\<close>

theorem create_payment_translates_creation_error:
  "(Interface_create_payment order_number total_price usr lang description
        (profile_or_default cfg profile) kwargs s = (Inl (DocdataCreateError v), s') \<longrightarrow>
      create_payment cfg Interface_create_payment order_number total_price usr lang description
        profile kwargs s = (Inl (PaymentError v (DocdataCreateError v)), s'))
   \<and> (Interface_create_payment order_number total_price usr lang description
        (profile_or_default cfg profile) kwargs s = (Inr key, s') \<longrightarrow>
      create_payment cfg Interface_create_payment order_number total_price usr lang description
        profile kwargs s = (Inr key, s'))"
  by (simp add: create_payment_def)

theorem create_payment_translates_creation_error_witness:
  "create_payment ex_cfg ex_accepting_interface ''1001'' ex_price ex_user None None None
       ex_kwargs ex_state = (Inr ''KEY-1001'', ex_state)
   \<and> (\<exists>e. create_payment ex_cfg ex_rejecting_interface ''1001'' ex_price ex_user None None None
       ex_kwargs ex_state = (Inl (PaymentError ''REQUEST_DATA_INCORRECT'' e), ex_state))"
proof -
  have a: "ex_accepting_interface ''1001'' ex_price ex_user None None
          (profile_or_default ex_cfg None) ex_kwargs ex_state = (Inr ''KEY-1001'', ex_state)"
    by (simp add: ex_accepting_interface_def)
  have r: "ex_rejecting_interface ''1001'' ex_price ex_user None None
          (profile_or_default ex_cfg None) ex_kwargs ex_state
            = (Inl (DocdataCreateError ''REQUEST_DATA_INCORRECT''), ex_state)"
    by (simp add: ex_rejecting_interface_def)
  from a create_payment_translates_creation_error
         [where Interface_create_payment = ex_accepting_interface and order_number = "''1001''"
            and total_price = ex_price and usr = ex_user and lang = None and description = None
            and cfg = ex_cfg and profile = None and kwargs = ex_kwargs and s = ex_state
            and key = "''KEY-1001''" and s' = ex_state]
  have 1: "create_payment ex_cfg ex_accepting_interface ''1001'' ex_price ex_user None None None
       ex_kwargs ex_state = (Inr ''KEY-1001'', ex_state)"
    by simp
  from r create_payment_translates_creation_error
         [where Interface_create_payment = ex_rejecting_interface and order_number = "''1001''"
            and total_price = ex_price and usr = ex_user and lang = None and description = None
            and cfg = ex_cfg and profile = None and kwargs = ex_kwargs and s = ex_state
            and v = "''REQUEST_DATA_INCORRECT''" and s' = ex_state]
  have 2: "create_payment ex_cfg ex_rejecting_interface ''1001'' ex_price ex_user None None None
       ex_kwargs ex_state
         = (Inl (PaymentError ''REQUEST_DATA_INCORRECT'' (DocdataCreateError ''REQUEST_DATA_INCORRECT'')),
            ex_state)"
    by simp
  from 1 2 show ?thesis by blast
qed

text \<open>
  The claim as it is written says that the gateway's error does not reach the caller.
  With a gateway that rejects the session, the exception that \<open>create_payment\<close> raises
  has the gateway's creation error as its second argument.
\<close>

theorem create_payment_error_carried_counterexample:
  "create_payment ex_cfg ex_rejecting_interface ''1001'' ex_price ex_user None None None
       ex_kwargs ex_state
     = (Inl (PaymentError ''REQUEST_DATA_INCORRECT'' (DocdataCreateError ''REQUEST_DATA_INCORRECT'')),
        ex_state)
   \<and> carries_gateway_error
        (PaymentError ''REQUEST_DATA_INCORRECT'' (DocdataCreateError ''REQUEST_DATA_INCORRECT''))"
  by (simp add: create_payment_def ex_rejecting_interface_def)

section \<open>The canonical source type\<close>

lemma filter_distinct_key:
  assumes "distinct (map f xs)" and "x \<in> set xs"
  shows "filter (\<lambda>r. f r = f x) xs = [x]"
  using assms
proof (induction xs)
  case Nil
  then show ?case by simp
next
  case (Cons a xs)
  show ?case
  proof (cases "a = x")
    case True
    from Cons.prems(1) have nx: "f x \<notin> f ` set xs" using True by simp
    have "f r \<noteq> f x" if "r \<in> set xs" for r
    proof
      assume "f r = f x"
      with that have "f x \<in> f ` set xs" by (metis imageI)
      with nx show False by simp
    qed
    then have "filter (\<lambda>r. f r = f x) xs = []"
      by (simp add: filter_empty_conv)
    with True show ?thesis by simp
  next
    case False
    with Cons.prems have mem: "x \<in> set xs" and d: "distinct (map f xs)" by simp_all
    from Cons.prems(1) mem have "f a \<noteq> f x" by force
    with Cons.IH[OF d mem] show ?thesis by simp
  qed
qed

lemma get_source_type_existing:
  assumes "filter (\<lambda>r. st_code r = ''docdata'') (source_types s) = [x]"
  shows "get_source_type s = (Inr x, lazy_get_models s)"
  using assms by (simp add: get_source_type_def get_or_create_def objects_get_def Let_def)

lemma get_source_type_absent:
  assumes "filter (\<lambda>r. st_code r = ''docdata'') (source_types s) = []"
  shows "get_source_type s
           = (Inr \<lparr>st_pk = next_pk (source_types s), st_name = ''Docdata Payments'', st_code = ''docdata''\<rparr>,
              (lazy_get_models s)\<lparr>source_types := source_types s
                 @ [\<lparr>st_pk = next_pk (source_types s), st_name = ''Docdata Payments'',
                     st_code = ''docdata''\<rparr>]\<rparr>)"
  using assms by (simp add: get_source_type_def get_or_create_def objects_get_def Let_def)

lemma lazy_get_models_idem: "models_loaded s \<Longrightarrow> lazy_get_models s = s"
  by (simp add: lazy_get_models_def)

text \<open>
  C8. On a table of source types whose codes are distinct (the column is unique):
  a row with the code \<open>docdata\<close> is returned as it is and the table is unchanged;
  when there is none, one row with that code and the name \<open>Docdata Payments\<close> is
  appended and returned; and a second call directly after the first returns the same
  row and leaves the state of the first call as it is.
\<close>

theorem get_source_type_lookup_or_create:
  assumes "distinct (map st_code (source_types s))"
  shows "(\<forall>x \<in> set (source_types s). st_code x = ''docdata'' \<longrightarrow>
            get_source_type s = (Inr x, lazy_get_models s))
       \<and> ((\<forall>x \<in> set (source_types s). st_code x \<noteq> ''docdata'') \<longrightarrow>
            get_source_type s
              = (Inr \<lparr>st_pk = next_pk (source_types s), st_name = ''Docdata Payments'',
                      st_code = ''docdata''\<rparr>,
                 (lazy_get_models s)\<lparr>source_types := source_types s
                    @ [\<lparr>st_pk = next_pk (source_types s), st_name = ''Docdata Payments'',
                        st_code = ''docdata''\<rparr>]\<rparr>))
       \<and> (\<exists>r. fst (get_source_type s) = Inr r \<and> st_code r = ''docdata'')
       \<and> get_source_type (snd (get_source_type s)) = get_source_type s"
proof -
  let ?T = "source_types s"
  let ?new = "\<lparr>st_pk = next_pk ?T, st_name = ''Docdata Payments'', st_code = ''docdata''\<rparr>"
  have found: "get_source_type s = (Inr x, lazy_get_models s)"
    if "x \<in> set ?T" "st_code x = ''docdata''" for x
  proof -
    from filter_distinct_key[OF assms that(1)] that(2)
    have "filter (\<lambda>r. st_code r = ''docdata'') ?T = [x]" by simp
    then show ?thesis by (rule get_source_type_existing)
  qed
  have absent: "get_source_type s = (Inr ?new, (lazy_get_models s)\<lparr>source_types := ?T @ [?new]\<rparr>)"
    if "\<forall>x \<in> set ?T. st_code x \<noteq> ''docdata''"
  proof -
    from that have "filter (\<lambda>r. st_code r = ''docdata'') ?T = []"
      by (simp add: filter_empty_conv)
    then show ?thesis by (rule get_source_type_absent)
  qed
  have rest: "(\<exists>r. fst (get_source_type s) = Inr r \<and> st_code r = ''docdata'')
       \<and> get_source_type (snd (get_source_type s)) = get_source_type s"
  proof (cases "\<exists>x \<in> set ?T. st_code x = ''docdata''")
    case True
    then obtain x where x: "x \<in> set ?T" "st_code x = ''docdata''" by blast
    have f: "filter (\<lambda>r. st_code r = ''docdata'') ?T = [x]"
      using filter_distinct_key[OF assms x(1)] x(2) by simp
    have 1: "get_source_type s = (Inr x, lazy_get_models s)" using found[OF x] .
    have "filter (\<lambda>r. st_code r = ''docdata'') (source_types (lazy_get_models s)) = [x]"
      using f by simp
    from get_source_type_existing[OF this]
    have 2: "get_source_type (lazy_get_models s) = (Inr x, lazy_get_models s)"
      by (simp add: lazy_get_models_idem)
    from 1 2 x(2) show ?thesis by simp
  next
    case False
    then have n: "\<forall>x \<in> set ?T. st_code x \<noteq> ''docdata''" by blast
    let ?s' = "(lazy_get_models s)\<lparr>source_types := ?T @ [?new]\<rparr>"
    have 1: "get_source_type s = (Inr ?new, ?s')" using absent[OF n] .
    from n have "filter (\<lambda>r. st_code r = ''docdata'') ?T = []"
      by (simp add: filter_empty_conv)
    then have "filter (\<lambda>r. st_code r = ''docdata'') (source_types ?s') = [?new]" by simp
    from get_source_type_existing[OF this]
    have 2: "get_source_type ?s' = (Inr ?new, ?s')"
      by (simp add: lazy_get_models_idem)
    from 1 2 show ?thesis by simp
  qed
  from found absent rest show ?thesis by blast
qed

theorem get_source_type_lookup_or_create_witness:
  "get_source_type ex_state
     = (Inr \<lparr>st_pk = 1, st_name = ''Docdata Payments'', st_code = ''docdata''\<rparr>,
        ex_state\<lparr>models_loaded := True,
                 source_types := [\<lparr>st_pk = 1, st_name = ''Docdata Payments'', st_code = ''docdata''\<rparr>]\<rparr>)
   \<and> get_source_type (ex_state\<lparr>source_types := [ex_source_type]\<rparr>)
     = (Inr ex_source_type, ex_state\<lparr>source_types := [ex_source_type], models_loaded := True\<rparr>)
   \<and> get_source_type (snd (get_source_type ex_state)) = get_source_type ex_state"
proof -
  have d1: "distinct (map st_code (source_types ex_state))"
    by (simp add: ex_state_def)
  have d2: "distinct (map st_code (source_types (ex_state\<lparr>source_types := [ex_source_type]\<rparr>)))"
    by simp
  have a: "get_source_type ex_state
     = (Inr \<lparr>st_pk = 1, st_name = ''Docdata Payments'', st_code = ''docdata''\<rparr>,
        ex_state\<lparr>models_loaded := True,
                 source_types := [\<lparr>st_pk = 1, st_name = ''Docdata Payments'', st_code = ''docdata''\<rparr>]\<rparr>)"
    using get_source_type_lookup_or_create[OF d1]
    by (simp add: ex_state_def next_pk_def lazy_get_models_def)
  have b: "get_source_type (ex_state\<lparr>source_types := [ex_source_type]\<rparr>)
     = (Inr ex_source_type, ex_state\<lparr>source_types := [ex_source_type], models_loaded := True\<rparr>)"
    using get_source_type_lookup_or_create[OF d2]
    by (simp add: ex_state_def ex_source_type_def lazy_get_models_def)
  have c: "get_source_type (snd (get_source_type ex_state)) = get_source_type ex_state"
    using get_source_type_lookup_or_create[OF d1] by blast
  from a b c show ?thesis by blast
qed

section \<open>The arguments of the payment request\<close>



section \<open>The migration\<close>

text \<open>
  C10. The forwards step of the migration keeps the number and the order of the rows;
  a row whose \<open>merchant_name\<close> is the empty string becomes the same row with
  \<open>merchant_name\<close> set to the configured merchant name, every other row is left as
  it is, and no other column of any row changes. The backwards step changes nothing.
\<close>

theorem forwards_fills_empty_merchant_name:
  "length (forwards cfg rows) = length rows
   \<and> (\<forall>i < length rows.
        forwards cfg rows ! i
          = (if merchant_name (rows ! i) = []
             then (rows ! i)\<lparr>merchant_name := DOCDATA_MERCHANT_NAME cfg\<rparr>
             else rows ! i))
   \<and> backwards rows = rows"
  by (simp add: forwards_def backwards_def)

theorem forwards_fills_empty_merchant_name_witness:
  "forwards ex_cfg ex_rows ! 0 = ex_docdataorder\<lparr>merchant_name := ''shop''\<rparr>
   \<and> forwards ex_cfg ex_rows ! 1 = ex_docdataorder\<lparr>merchant_name := ''other''\<rparr>"
proof -
  have l: "length ex_rows = 2" by (simp add: ex_rows_def)
  have m: "DOCDATA_MERCHANT_NAME ex_cfg = ''shop''" by (simp add: ex_cfg_def)
  from forwards_fills_empty_merchant_name[of ex_cfg ex_rows] l
  have "forwards ex_cfg ex_rows ! 0
          = (if merchant_name (ex_rows ! 0) = []
             then (ex_rows ! 0)\<lparr>merchant_name := DOCDATA_MERCHANT_NAME ex_cfg\<rparr> else ex_rows ! 0)"
    and "forwards ex_cfg ex_rows ! 1
          = (if merchant_name (ex_rows ! 1) = []
             then (ex_rows ! 1)\<lparr>merchant_name := DOCDATA_MERCHANT_NAME ex_cfg\<rparr> else ex_rows ! 1)"
    by simp_all
  then show ?thesis by (simp add: ex_rows_def m)
qed

end
